theory Spec2Isabelle
  imports Main
begin

section \<open>The Neovim supervisor of edit-in-neovim (src/Neovim.ts)\<close>

text \<open>
  The class \<open>Neovim\<close> keeps two mutable references, \<open>instance\<close> (the RPC session
  returned by \<open>attach\<close>) and \<open>process\<close> (the child process returned by \<open>spawn\<close>),
  beside the configuration fixed by the constructor. Every method is modelled as a
  function from the state to the new state and the list of effects it performs, in
  the order the source performs them. What the outside world answers (the result of
  \<open>spawn\<close>, of the port probe, of an RPC call) is read from an environment record.

  Strings are lists of characters. JavaScript truthiness is written out: a string is
  truthy when it is not empty, an object reference when it is present.
\<close>

subsection \<open>Strings and arrays of JavaScript\<close>

definition includes_arr :: "'a list \<Rightarrow> 'a \<Rightarrow> bool" where
  "includes_arr xs x = (x \<in> set xs)"

definition endsWith :: "string \<Rightarrow> string \<Rightarrow> bool" where
  "endsWith s suf = (length suf \<le> length s \<and> drop (length s - length suf) s = suf)"

text \<open>\<open>s.split(c)\<close> for a one-character separator: never empty, \<open>"".split(c) = [""]\<close>.\<close>

fun split_acc :: "char \<Rightarrow> string \<Rightarrow> string \<Rightarrow> string list" where
  "split_acc c acc [] = [rev acc]"
| "split_acc c acc (x # xs) =
     (if x = c then rev acc # split_acc c [] xs else split_acc c (x # acc) xs)"

definition js_split :: "char \<Rightarrow> string \<Rightarrow> string list" where
  "js_split c s = split_acc c [] s"

text \<open>\<open>xs.at(-1)\<close> and \<open>xs.pop()\<close> as a read: the last element, \<open>undefined\<close> on an empty array.\<close>

definition at_last :: "'a list \<Rightarrow> 'a option" where
  "at_last xs = (if xs = [] then None else Some (last xs))"

definition sq :: string where
  "sq = [CHR 0x27]"

definition dq :: string where
  "dq = [CHR 0x22]"

definition truthy :: "string option \<Rightarrow> bool" where
  "truthy v = (case v of None \<Rightarrow> False | Some s \<Rightarrow> s \<noteq> [])"

text \<open>\<open>toLowerCase\<close> on the ASCII letters, which is what the terminal names compared
  against consist of.\<close>

definition lower_char :: "char \<Rightarrow> char" where
  "lower_char c =
     (let n = (of_char c :: nat) in if 65 \<le> n \<and> n \<le> 90 then char_of (n + 32) else c)"

definition toLowerCase :: "string \<Rightarrow> string" where
  "toLowerCase s = map lower_char s"

subsection \<open>Data\<close>

record settings =
  pathToBinary :: string
  terminal :: string
  listenOn :: string
  supportedFileTypes :: "string list"

record nvim_binary =
  path :: string
  nvimVersion :: "string option"
  error :: "string option"

record tfile =
  path :: string
  extension :: string
  basename :: string

record adapter =
  getBasePath :: string
  getFullPath :: "string \<Rightarrow> string"

text \<open>A spawned child process (its \<open>pid\<close> is \<open>undefined\<close> when the spawn failed) and the
  RPC client attached to it.\<close>

datatype child = Child (handle: nat) (pid: "nat option")

datatype session = Session (proc: child)

datatype buffer = Buffer nat

record errno_exception =
  code :: "string option"
  message :: string

datatype shell_option = ShellFlag bool | ShellPath string

record spawn_options =
  cwd :: string
  env_vars :: "string \<rightharpoonup> string"
  shell :: shell_option
  detached :: bool

record neovim =
  "instance" :: "session option"
  process :: "child option"
  settings :: settings
  nvimBinary :: nvim_binary
  termBinary :: "string option"
  adapter :: adapter
  apiKey :: "string option"

subsection \<open>Effects and the environment\<close>

text \<open>
  A console line is recorded with its level and its text: the fixed text of the
  message with the strings it interpolates; interpolated values that are not strings
  (a process id, an error object, the JSON of the spawn options) are left out. The text of a
  \<open>Notice\<close> is the one the user sees, with its duration. The other effects are the
  calls that leave the class.
\<close>

datatype level = Log | Warn | Err

datatype effect =
    Console level string
  | Notice string nat
  | SearchForBinary string
  | FindNvim
  | Spawn string "string list" spawn_options
  | Attach child
  | SetTimeout nat
  | Eval session string
  | ReadBuffers session
  | PortProbe string
  | ExecFile string "string list"
  | Quit session
  | Kill child string

text \<open>
  What the collaborators answer. A call that may throw answers \<open>Inl\<close> with the message
  of the exception (\<open>Some\<close> of it where the call returns nothing).
\<close>

record env =
  searchForBinary :: "string \<Rightarrow> string option"
  findNvim :: "nvim_binary list"
  platform :: string
  userShell :: "string option"
  processEnv :: "string \<rightharpoonup> string"
  spawn :: "string \<Rightarrow> string list \<Rightarrow> spawn_options \<Rightarrow> string + child"
  attach :: "child \<Rightarrow> string + session"
  evalRpc :: "session \<Rightarrow> string option"
  buffers :: "session \<Rightarrow> string + buffer list"
  isPortInUse :: "string \<Rightarrow> string + bool"
  execFile :: "string \<Rightarrow> string list \<Rightarrow> string option"
  quit :: "session \<Rightarrow> string option"
  kill :: "child \<Rightarrow> string \<Rightarrow> bool"

subsection \<open>openFile\<close>

definition isExcalidrawMd :: "tfile \<Rightarrow> bool" where
  "isExcalidrawMd file =
     (extension file = ''md'' \<and> endsWith (tfile.path file) ''.excalidraw.md'')"

text \<open>The file-type filter of \<open>openFile\<close>: the final value of \<open>isSupported\<close> and the
  console lines written on the way.\<close>

definition fileTypeFilter :: "settings \<Rightarrow> tfile \<Rightarrow> bool \<times> effect list" where
  "fileTypeFilter st file =
     (let isSupported = includes_arr (supportedFileTypes st) (extension file) in
      if isExcalidrawMd file then
        (if includes_arr (supportedFileTypes st) ''excalidraw''
         then (True, [Console Log (''Opening Excalidraw file: '' @ tfile.path file)])
         else (False,
               [Console Log (''Skipping Excalidraw file (type not enabled): '' @ tfile.path file)]))
      else if \<not> isSupported
        then (isSupported,
              [Console Log (''Skipping unsupported file type '' @ sq @ extension file @ sq @ '': '' @
                            tfile.path file)])
        else (isSupported, []))"

text \<open>The port read off the listen address: \<open>listenAddress.split(':').at(-1)\<close>.\<close>

definition portOf :: "string \<Rightarrow> string option" where
  "portOf listenAddress = at_last (js_split CHR '':'' listenAddress)"

text \<open>The reachability decision: the owned pair first, the port probe otherwise, and
  the probe only when a port could be read off the listen address.\<close>

definition checkConnection :: "env \<Rightarrow> neovim \<Rightarrow> string \<Rightarrow> string option \<Rightarrow> bool \<times> effect list" where
  "checkConnection e s listenAddress port =
     (if instance s \<noteq> None \<and> process s \<noteq> None
      then (True, [Console Log ''Found active Neovim instance managed by plugin.''])
      else
        (case port of
           None \<Rightarrow> (False, [])
         | Some p \<Rightarrow>
             if p = [] then (False, [])
             else
               (case isPortInUse e p of
                  Inr True \<Rightarrow>
                    (True,
                     [Console Log (''Checking if external Neovim is listening on port '' @ p @ ''...''),
                      PortProbe p,
                      Console Log (''Port '' @ p @ '' is in use. Assuming external Neovim instance is running.''),
                      Notice (''Opening file in external Neovim on '' @ listenAddress @ ''...'') 3000])
                | Inr False \<Rightarrow>
                    (False,
                     [Console Log (''Checking if external Neovim is listening on port '' @ p @ ''...''),
                      PortProbe p,
                      Console Log (''Port '' @ p @ '' is not in use. No Neovim instance found.'')])
                | Inl err \<Rightarrow>
                    (False,
                     [Console Log (''Checking if external Neovim is listening on port '' @ p @ ''...''),
                      PortProbe p,
                      Console Err (''Error checking port '' @ p @ '':'')]))))"

text \<open>
  The callback handed to \<open>execFile\<close> runs after \<open>openFile\<close> has returned; it writes
  console lines and at most one \<open>Notice\<close>, and assigns nothing. \<open>openFile\<close> reads
  \<open>this.instance\<close> and \<open>this.process\<close> before its only \<open>await\<close> and assigns
  neither, so it is one step on the state.
\<close>

definition remoteArgs :: "string \<Rightarrow> string \<Rightarrow> string list" where
  "remoteArgs listenAddress absolutePath = [''--server'', listenAddress, ''--remote'', absolutePath]"

definition openFile :: "env \<Rightarrow> neovim \<Rightarrow> tfile option \<Rightarrow> neovim \<times> effect list" where
  "openFile e s fileOpt =
     (case fileOpt of
        None \<Rightarrow> (s, [Console Log ''openFile called with null file.''])
      | Some file \<Rightarrow>
          (case fileTypeFilter (settings s) file of (isSupported, t1) \<Rightarrow>
             if \<not> isSupported then (s, t1)
             else
               (let nvimPath = nvim_binary.path (nvimBinary s);
                    listenAddress = listenOn (settings s);
                    port = portOf listenAddress
                in if nvimPath = [] then
                     (s, t1 @ [Console Err ''Cannot open file: Neovim binary path is not configured.'',
                               Notice ''Neovim path unknown, cannot open file.'' 7000])
                   else
                     (case checkConnection e s listenAddress port of (canConnect, t2) \<Rightarrow>
                        if \<not> canConnect then
                          (s, t1 @ t2 @
                              [Console Log ''No running Neovim instance (internal or external) found to open file in.'',
                               Notice ''No running Neovim found. Use 'Open Neovim' or ensure an external instance is listening.'' 5000])
                        else
                          (let absolutePath = getFullPath (adapter s) (tfile.path file);
                               args = remoteArgs listenAddress absolutePath
                           in (s, t1 @ t2 @
                                  [Console Log (''Requesting Neovim on '' @ listenAddress @ '' to open: '' @
                                                absolutePath),
                                   ExecFile nvimPath args] @
                                  (case execFile e nvimPath args of
                                     None \<Rightarrow> []
                                   | Some msg \<Rightarrow>
                                       [Console Err ''Error caught during child_process.execFile call:'',
                                        Notice (''Failed to run Neovim command: '' @ msg) 10000])))))))"

subsection \<open>The constructor\<close>

definition resolveNvim :: "env \<Rightarrow> settings \<Rightarrow> nvim_binary \<times> effect list" where
  "resolveNvim e st =
     (if pathToBinary st \<noteq> [] then
        (\<lparr>nvim_binary.path = pathToBinary st, nvimVersion = Some ''manual_path'', error = None\<rparr>,
         [Console Log (''Using manual Neovim path: '' @ pathToBinary st)])
      else
        (case findNvim e of
           m # ms \<Rightarrow>
             (m, [Console Log ''Searching for Neovim binary in default locations...'', FindNvim])
         | [] \<Rightarrow>
             (\<lparr>nvim_binary.path = [], nvimVersion = None,
               error = Some ''Neovim binary not found automatically.''\<rparr>,
              [Console Log ''Searching for Neovim binary in default locations...'', FindNvim,
               Notice ''Edit In Neovim: Could not automatically find a Neovim binary. Please set the path manually in settings or ensure nvim is in your PATH.'' 10000])))"

text \<open>The chain of console lines about the path that was determined.\<close>

definition reportNvim :: "settings \<Rightarrow> nvim_binary \<Rightarrow> effect list" where
  "reportNvim st b =
     (if nvim_binary.path b \<noteq> [] \<and> \<not> truthy (nvimVersion b) \<and> pathToBinary st \<noteq> [] then
        [Console Warn (''Using manually provided Neovim path: '' @ nvim_binary.path b @
                       ''. Version check skipped.'')]
      else if nvim_binary.path b = [] \<and> error b \<noteq> None then
        [Console Err (''Failed to find or configure Neovim binary: '' @ (case error b of Some m \<Rightarrow> m | None \<Rightarrow> []))]
      else if nvim_binary.path b = [] \<and> pathToBinary st = [] then
        [Console Err ''Neovim binary path could not be determined.'',
         Notice ''Edit In Neovim: Could not determine Neovim binary path.'' 10000]
      else [Console Log ''Neovim Information:''])"

definition constructor :: "env \<Rightarrow> settings \<Rightarrow> adapter \<Rightarrow> string option \<Rightarrow> neovim \<times> effect list" where
  "constructor e st ad key =
     (let term = searchForBinary e (terminal st) in
      case resolveNvim e st of (b, t1) \<Rightarrow>
        (\<lparr>instance = None, process = None, settings = st, nvimBinary = b, termBinary = term,
          adapter = ad, apiKey = key\<rparr>,
         [SearchForBinary (terminal st)] @ t1 @ reportNvim st b @
         (if \<not> truthy term
          then [Console Warn (''Could not find terminal binary for: '' @ sq @ terminal st @ sq @
                              ''. Is it installed and in your PATH? Spawning Neovim might fail.'')]
          else [])))"

subsection \<open>getBuffers\<close>

definition getBuffers :: "env \<Rightarrow> neovim \<Rightarrow> neovim \<times> buffer list \<times> effect list" where
  "getBuffers e s =
     (case instance s of
        None \<Rightarrow> (s, [], [])
      | Some i \<Rightarrow>
          (case buffers e i of
             Inr bs \<Rightarrow> (s, bs, [ReadBuffers i])
           | Inl msg \<Rightarrow>
               (s, [],
                [ReadBuffers i, Console Err ''Failed to get Neovim buffers:'',
                 Notice (''Error communicating with Neovim: '' @ msg) 5000])))"

subsection \<open>close\<close>

definition close :: "env \<Rightarrow> neovim \<Rightarrow> neovim \<times> effect list" where
  "close e s =
     (case (case instance s of
              Some i \<Rightarrow>
                (s\<lparr>instance := None\<rparr>,
                 [Console Log ''Attempting to quit Neovim instance via RPC...'', Quit i] @
                 (case quit e i of
                    None \<Rightarrow> []
                  | Some msg \<Rightarrow> [Console Err ''Error during instance.quit():'']))
            | None \<Rightarrow> (s, [Console Log ''No active Neovim instance object to quit via RPC.'']))
      of (s1, t1) \<Rightarrow>
        (case (case process s1 of
                 Some p \<Rightarrow>
                   (s1\<lparr>process := None\<rparr>,
                    [Console Log ''Killing Neovim process (PID: )...'', Kill p ''SIGTERM'',
                     Console Log (''Process kill('SIGTERM') returned: '' @
                                  (if kill e p ''SIGTERM'' then ''true'' else ''false''))])
               | None \<Rightarrow> (s1, [Console Log ''No active Neovim process object to kill.'']))
         of (s2, t2) \<Rightarrow>
           (s2, [Console Log ''Close method called.''] @ t1 @ t2 @
                [Console Log ''Neovim instance and process references cleared.'',
                 Notice ''Neovim instance closed.'' 3000])))"

subsection \<open>newInstance\<close>

text \<open>The argument vector and the \<open>shell\<close> option chosen for the platform and the
  terminal.\<close>

definition terminalNameOf :: "string \<Rightarrow> string" where
  "terminalNameOf termPath =
     (case at_last (js_split (CHR 0x5C) termPath) of
        None \<Rightarrow> []
      | Some n \<Rightarrow> toLowerCase n)"

definition launchPlan :: "env \<Rightarrow> string \<Rightarrow> string \<Rightarrow> string \<Rightarrow> string list \<times> shell_option \<times> effect list" where
  "launchPlan e termPath nvimPath listenArg =
     (if platform e = ''win32'' then
        (let terminalName = terminalNameOf termPath in
         if terminalName = ''alacritty.exe'' \<or> terminalName = ''wezterm.exe'' \<or>
            terminalName = ''kitty.exe''
         then ([''-e'', nvimPath, ''--listen'', listenArg], ShellFlag False, [])
         else if terminalName = ''wt.exe''
         then ([''new-tab'', ''--title'', ''Neovim'', nvimPath, ''--listen'', listenArg],
               ShellFlag False, [])
         else if terminalName = ''powershell.exe'' \<or> terminalName = ''pwsh.exe''
         then ([''-ExecutionPolicy'', ''Bypass'', ''-NoProfile'', ''-NoExit'', ''-Command'',
                ''Start-Process -FilePath '' @ sq @ nvimPath @ sq @ '' -ArgumentList '' @ sq @
                ''--listen '' @ listenArg @ sq @ '' -WindowStyle Normal''],
               ShellFlag True, [])
         else if terminalName = ''cmd.exe''
         then ([''/c'', ''start'', dq @ ''Neovim'' @ dq, dq @ nvimPath @ dq, ''--listen'', listenArg],
               ShellFlag True, [])
         else ([''-e'', nvimPath, ''--listen'', listenArg], ShellFlag False,
               [Console Warn (''Unknown/unhandled Windows terminal: '' @ termPath @
                              ''. Attempting generic '-e' execution (shell: false). This may fail.'')]))
      else
        ([''-e'', nvimPath, ''--listen'', listenArg],
         (case userShell e of
            None \<Rightarrow> ShellFlag True
          | Some sh \<Rightarrow> if sh = [] then ShellFlag True else ShellPath sh),
         [Console Log ''Using config for non-Windows: shell: , args: '']))"

definition extraEnvVars :: "string option \<Rightarrow> (string \<rightharpoonup> string)" where
  "extraEnvVars key =
     (case key of
        None \<Rightarrow> Map.empty
      | Some k \<Rightarrow> if k = [] then Map.empty else [''OBSIDIAN_REST_API_KEY'' \<mapsto> k])"

definition newInstance :: "env \<Rightarrow> adapter \<Rightarrow> neovim \<Rightarrow> neovim \<times> effect list" where
  "newInstance e ad s =
     (if process s \<noteq> None then
        (s, [Notice ''Linked Neovim instance already running'' 5000,
             Console Log ''newInstance called, but process already exists.''])
      else if \<not> truthy (termBinary s) then
        (s, [Notice (''Unknown terminal: '' @ sq @ terminal (settings s) @ sq @
                     ''. Is it installed and on your PATH? Cannot start Neovim.'') 8000,
             Console Err ''newInstance failed: Terminal binary path is missing.''])
      else if nvim_binary.path (nvimBinary s) = [] then
        (s, [Notice ''Neovim binary path is not configured correctly. Cannot start Neovim.'' 8000,
             Console Err ''newInstance failed: Neovim binary path is missing.''])
      else
        (let termPath = (case termBinary s of Some t \<Rightarrow> t | None \<Rightarrow> []);
             nvimPath = nvim_binary.path (nvimBinary s);
             listenArg = listenOn (settings s)
         in case launchPlan e termPath nvimPath listenArg of (spawnArgs, sh, t1) \<Rightarrow>
           (let spawnOptions =
                  \<lparr>cwd = getBasePath ad, env_vars = processEnv e ++ extraEnvVars (apiKey s),
                   shell = sh, detached = False\<rparr>;
                t2 = t1 @ [Console Log ''Attempting to spawn process:'',
                           Spawn termPath spawnArgs spawnOptions]
            in case spawn e termPath spawnArgs spawnOptions of
                 Inl msg \<Rightarrow>
                   (s\<lparr>process := None, instance := None\<rparr>,
                    t2 @ [Console Err ''Error caught during child_process.spawn call itself:'',
                          Notice (''Error trying to spawn Neovim: '' @ msg) 10000])
               | Inr p \<Rightarrow>
                   if pid p = None then
                     (s\<lparr>process := None\<rparr>,
                      t2 @ [Console Err ''Failed to spawn process object or PID is undefined immediately after spawn call.'',
                            Notice ''Failed to create Neovim process object.'' 7000])
                   else
                     (case attach e p of
                        Inl msg \<Rightarrow>
                          (s\<lparr>process := None, instance := None\<rparr>,
                           t2 @ [Console Log ''Process spawned successfully with PID: '',
                                 Console Log ''Attempting to attach to Neovim RPC via process...'',
                                 Attach p,
                                 Console Err ''Error caught during child_process.spawn call itself:'',
                                 Notice (''Error trying to spawn Neovim: '' @ msg) 10000])
                      | Inr i \<Rightarrow>
                          (s\<lparr>process := Some p, instance := Some i\<rparr>,
                           t2 @ [Console Log ''Process spawned successfully with PID: '',
                                 Console Log ''Attempting to attach to Neovim RPC via process...'',
                                 Attach p,
                                 Console Log ''Neovim attach call completed.'',
                                 SetTimeout 1500])))))"

subsection \<open>The lifecycle handlers registered by newInstance\<close>

text \<open>The four handlers close over \<open>this\<close> and over \<open>termPath\<close>; each is a step on the
  state. The handler of \<open>error\<close> assigns both references without a test, the other
  three test \<open>this.process\<close> first.\<close>

definition onError :: "string \<Rightarrow> errno_exception \<Rightarrow> neovim \<Rightarrow> neovim \<times> effect list" where
  "onError termPath err s =
     (let msg =
            (if code err = Some ''ENOENT''
             then ''Could not find executable: '' @ termPath @ ''. Is it installed and in PATH?''
             else if code err = Some ''EACCES''
             then ''Permission denied executing: '' @ termPath
             else ''Failed to start Neovim process: '' @ message err)
      in (s\<lparr>process := None, instance := None\<rparr>,
          [Console Err ''Neovim child_process emitted 'error' event:'', Notice msg 10000]))"

definition onClose :: "neovim \<Rightarrow> neovim \<times> effect list" where
  "onClose s =
     (if process s \<noteq> None then (s\<lparr>process := None, instance := None\<rparr>, []) else (s, []))"

definition onExit :: "neovim \<Rightarrow> neovim \<times> effect list" where
  "onExit s =
     (if process s \<noteq> None
      then (s\<lparr>process := None, instance := None\<rparr>,
            [Console Log ''Neovim instance and process state cleared on 'exit'.''])
      else (s, []))"

definition onDisconnect :: "neovim \<Rightarrow> neovim \<times> effect list" where
  "onDisconnect s =
     (if process s \<noteq> None
      then (s\<lparr>process := None, instance := None\<rparr>,
            [Console Log ''Neovim process 'disconnect' event.'',
             Console Log ''Neovim instance and process state cleared on 'disconnect'.''])
      else (s, [Console Log ''Neovim process 'disconnect' event.'']))"

datatype lifecycle_event = ErrorEvent errno_exception | CloseEvent | ExitEvent | DisconnectEvent

fun fire :: "string \<Rightarrow> lifecycle_event \<Rightarrow> neovim \<Rightarrow> neovim \<times> effect list" where
  "fire termPath (ErrorEvent err) s = onError termPath err s"
| "fire termPath CloseEvent s = onClose s"
| "fire termPath ExitEvent s = onExit s"
| "fire termPath DisconnectEvent s = onDisconnect s"

subsection \<open>The connection test scheduled by newInstance\<close>

text \<open>The callback of \<open>setTimeout\<close>: nothing without a session; otherwise
  \<open>eval('1')\<close>, and \<open>close\<close> when that fails.\<close>

definition rpcTest :: "env \<Rightarrow> neovim \<Rightarrow> neovim \<times> effect list" where
  "rpcTest e s =
     (case instance s of
        None \<Rightarrow> (s, [])
      | Some i \<Rightarrow>
          (case evalRpc e i of
             None \<Rightarrow>
               (s, [Eval i ''1'', Console Log ''Neovim RPC connection test successful.'',
                    Notice ''Neovim instance started and connected.'' 3000])
           | Some msg \<Rightarrow>
               (case close e s of (s', t) \<Rightarrow>
                  (s', [Eval i ''1'', Console Err ''Neovim RPC connection failed after spawn:'',
                        Notice (''Failed to establish RPC connection: '' @ msg) 7000] @ t))))"

subsection \<open>Reading a trace\<close>

fun isNotice :: "effect \<Rightarrow> bool" where
  "isNotice (Notice m d) = True"
| "isNotice x = False"

fun isExecFile :: "effect \<Rightarrow> bool" where
  "isExecFile (ExecFile p a) = True"
| "isExecFile x = False"

fun isSpawn :: "effect \<Rightarrow> bool" where
  "isSpawn (Spawn p a opts) = True"
| "isSpawn x = False"

fun isPortProbe :: "effect \<Rightarrow> bool" where
  "isPortProbe (PortProbe p) = True"
| "isPortProbe x = False"

fun isQuitOrKill :: "effect \<Rightarrow> bool" where
  "isQuitOrKill (Quit i) = True"
| "isQuitOrKill (Kill p sig) = True"
| "isQuitOrKill x = False"

subsection \<open>States of the supervisor\<close>

text \<open>A session is only ever held together with a process.\<close>

definition paired :: "neovim \<Rightarrow> bool" where
  "paired s = (instance s = None \<or> process s \<noteq> None)"

text \<open>The states the class can be in: the constructor's, and what the methods, the
  lifecycle handlers and the connection test make of them (\<open>openFile\<close> and
  \<open>getBuffers\<close> assign nothing).\<close>

inductive reachable :: "neovim \<Rightarrow> bool" where
  constructed: "reachable (fst (constructor e st ad key))"
| launched: "reachable s \<Longrightarrow> reachable (fst (newInstance e ad s))"
| closed: "reachable s \<Longrightarrow> reachable (fst (close e s))"
| fired: "reachable s \<Longrightarrow> reachable (fst (fire termPath ev s))"
| tested: "reachable s \<Longrightarrow> reachable (fst (rpcTest e s))"

text \<open>The probe of the port of the listen address is made and answers that the port is
  in use.\<close>

definition probeSucceeds :: "env \<Rightarrow> string \<Rightarrow> bool" where
  "probeSucceeds e listenAddress =
     (case portOf listenAddress of
        None \<Rightarrow> False
      | Some p \<Rightarrow> p \<noteq> [] \<and> isPortInUse e p = Inr True)"

subsection \<open>Concrete configurations\<close>

definition demo_settings :: settings where
  "demo_settings = \<lparr>pathToBinary = ''/usr/bin/nvim'', terminal = ''alacritty'',
     listenOn = ''127.0.0.1:7777'', supportedFileTypes = [''md'', ''txt'']\<rparr>"

definition unresolved_settings :: settings where
  "unresolved_settings = demo_settings\<lparr>pathToBinary := []\<rparr>"

definition demo_adapter :: adapter where
  "demo_adapter = \<lparr>getBasePath = ''/vault'', getFullPath = (\<lambda>p. ''/vault/'' @ p)\<rparr>"

text \<open>A Linux host where nothing is found by search, port 7777 is in use, the RPC
  transport is broken and signals are not delivered.\<close>

definition demo_env :: env where
  "demo_env = \<lparr>searchForBinary = (\<lambda>t. Some (''/usr/bin/'' @ t)), findNvim = [],
     platform = ''linux'', userShell = Some ''/bin/sh'', processEnv = Map.empty,
     spawn = (\<lambda>t a opts. Inr (Child 1 (Some 4242))), attach = (\<lambda>p. Inr (Session p)),
     evalRpc = (\<lambda>i. None), buffers = (\<lambda>i. Inl ''transport closed''),
     isPortInUse = (\<lambda>p. Inr (p = ''7777'')), execFile = (\<lambda>p a. None),
     quit = (\<lambda>i. Some ''channel closed''), kill = (\<lambda>p sig. False)\<rparr>"

definition closed_port_env :: env where
  "closed_port_env = demo_env\<lparr>isPortInUse := (\<lambda>p. Inr False)\<rparr>"

definition demo_state :: neovim where
  "demo_state = fst (constructor demo_env demo_settings demo_adapter None)"

definition not_found_state :: neovim where
  "not_found_state = fst (constructor demo_env unresolved_settings demo_adapter None)"

definition running_state :: neovim where
  "running_state = fst (newInstance demo_env demo_adapter demo_state)"

definition toggle_only_settings :: settings where
  "toggle_only_settings = demo_settings\<lparr>supportedFileTypes := [''excalidraw'']\<rparr>"

definition toggle_only_state :: neovim where
  "toggle_only_state =
     fst (newInstance demo_env demo_adapter
            (fst (constructor demo_env toggle_only_settings demo_adapter None)))"

definition note_file :: tfile where
  "note_file = \<lparr>tfile.path = ''notes/today.md'', extension = ''md'', basename = ''today''\<rparr>"

definition drawing_file :: tfile where
  "drawing_file =
     \<lparr>tfile.path = ''d.excalidraw.md'', extension = ''md'', basename = ''d.excalidraw''\<rparr>"

section \<open>Properties\<close>

subsection \<open>The concrete configurations, evaluated\<close>

lemma demo_listenOn: "listenOn demo_settings = ''127.0.0.1:7777''"
  by (simp add: demo_settings_def)

lemma unresolved_listenOn: "listenOn unresolved_settings = ''127.0.0.1:7777''"
  by (simp add: unresolved_settings_def demo_settings_def)

lemma portOf_demo: "portOf ''127.0.0.1:7777'' = Some ''7777''"
  by (simp add: portOf_def js_split_def at_last_def)

lemma demo_state_simp:
  "demo_state = \<lparr>instance = None, process = None, settings = demo_settings,
     nvimBinary = \<lparr>nvim_binary.path = ''/usr/bin/nvim'', nvimVersion = Some ''manual_path'',
                   error = None\<rparr>,
     termBinary = Some ''/usr/bin/alacritty'', adapter = demo_adapter, apiKey = None\<rparr>"
  by (simp add: demo_state_def constructor_def resolveNvim_def demo_settings_def demo_env_def
      Let_def)

lemma not_found_state_simp:
  "not_found_state = \<lparr>instance = None, process = None, settings = unresolved_settings,
     nvimBinary = \<lparr>nvim_binary.path = [], nvimVersion = None,
                   error = Some ''Neovim binary not found automatically.''\<rparr>,
     termBinary = Some ''/usr/bin/alacritty'', adapter = demo_adapter, apiKey = None\<rparr>"
  by (simp add: not_found_state_def constructor_def resolveNvim_def unresolved_settings_def
      demo_settings_def demo_env_def Let_def)

lemma running_state_simp:
  "running_state = demo_state\<lparr>process := Some (Child 1 (Some 4242)),
     instance := Some (Session (Child 1 (Some 4242)))\<rparr>"
  by (simp add: running_state_def newInstance_def demo_state_simp truthy_def launchPlan_def
      demo_env_def demo_settings_def)

lemma toggle_only_state_simp:
  "toggle_only_state =
     \<lparr>instance = Some (Session (Child 1 (Some 4242))), process = Some (Child 1 (Some 4242)),
      settings = toggle_only_settings,
      nvimBinary = \<lparr>nvim_binary.path = ''/usr/bin/nvim'', nvimVersion = Some ''manual_path'',
                    error = None\<rparr>,
      termBinary = Some ''/usr/bin/alacritty'', adapter = demo_adapter, apiKey = None\<rparr>"
  by (simp add: toggle_only_state_def newInstance_def constructor_def resolveNvim_def
      truthy_def launchPlan_def demo_env_def toggle_only_settings_def demo_settings_def Let_def)

lemma note_supported: "fileTypeFilter demo_settings note_file = (True, [])"
  by (simp add: fileTypeFilter_def isExcalidrawMd_def endsWith_def includes_arr_def
      demo_settings_def note_file_def)

lemma note_supported_unresolved: "fileTypeFilter unresolved_settings note_file = (True, [])"
  by (simp add: fileTypeFilter_def isExcalidrawMd_def endsWith_def includes_arr_def
      unresolved_settings_def demo_settings_def note_file_def)

subsection \<open>The two references go together\<close>

lemma close_state: "fst (close e s) = s\<lparr>instance := None, process := None\<rparr>"
  by (cases s) (simp add: close_def split: option.splits prod.splits)

lemma fire_state:
  "fst (fire termPath ev s) =
     (case ev of
        ErrorEvent err \<Rightarrow> s\<lparr>process := None, instance := None\<rparr>
      | _ \<Rightarrow> if process s \<noteq> None then s\<lparr>process := None, instance := None\<rparr> else s)"
  by (cases ev) (simp_all add: onError_def onClose_def onExit_def onDisconnect_def Let_def)

lemma fire_paired:
  assumes "paired s"
  shows "fst (fire termPath ev s) =
           (if process s \<noteq> None then s\<lparr>process := None, instance := None\<rparr> else s)"
proof (cases "process s = None")
  case True
  with assms have "instance s = None" by (simp add: paired_def)
  with True show ?thesis
    by (simp add: fire_state split: lifecycle_event.splits)
next
  case False
  then show ?thesis
    by (simp add: fire_state split: lifecycle_event.splits)
qed

lemma fire_absent:
  "process s = None \<Longrightarrow> instance s = None \<Longrightarrow> fst (fire termPath ev s) = s"
  by (simp add: fire_state split: lifecycle_event.splits)

lemma paired_constructor: "paired (fst (constructor e st ad key))"
  by (simp add: constructor_def paired_def Let_def split: prod.splits)

lemma paired_newInstance: "paired s \<Longrightarrow> paired (fst (newInstance e ad s))"
  by (auto simp add: newInstance_def paired_def Let_def split: prod.splits sum.splits)

lemma paired_close: "paired (fst (close e s))"
  by (simp add: close_state paired_def)

lemma paired_fire: "paired s \<Longrightarrow> paired (fst (fire termPath ev s))"
  by (auto simp add: fire_state paired_def split: lifecycle_event.splits)

lemma paired_rpcTest: "paired s \<Longrightarrow> paired (fst (rpcTest e s))"
  using close_state [of e s]
  by (cases "close e s") (auto simp add: rpcTest_def paired_def split: option.splits)

lemma reachable_paired: "reachable s \<Longrightarrow> paired s"
  by (induction rule: reachable.induct)
    (simp_all add: paired_constructor paired_newInstance paired_close paired_fire paired_rpcTest)

lemma openFile_state: "fst (openFile e s fileOpt) = s"
  by (simp add: openFile_def Let_def split: option.splits prod.splits)

subsection \<open>What the parts of openFile write\<close>

lemma fileTypeFilter_trace_console:
  "filter isNotice (snd (fileTypeFilter st file)) = []"
  "filter isExecFile (snd (fileTypeFilter st file)) = []"
  "filter isSpawn (snd (fileTypeFilter st file)) = []"
  "filter isPortProbe (snd (fileTypeFilter st file)) = []"
  by (simp_all add: fileTypeFilter_def Let_def)

lemma checkConnection_unreachable:
  assumes "\<not> (instance s \<noteq> None \<and> process s \<noteq> None)"
    and "\<not> probeSucceeds e addr"
  shows "fst (checkConnection e s addr (portOf addr)) = False
         \<and> filter isNotice (snd (checkConnection e s addr (portOf addr))) = []
         \<and> filter isExecFile (snd (checkConnection e s addr (portOf addr))) = []
         \<and> filter isSpawn (snd (checkConnection e s addr (portOf addr))) = []"
  using assms
  by (auto simp add: checkConnection_def probeSucceeds_def
      split: option.splits sum.splits bool.splits)

lemma checkConnection_reachable:
  assumes "(instance s \<noteq> None \<and> process s \<noteq> None) \<or> probeSucceeds e addr"
  shows "fst (checkConnection e s addr (portOf addr)) = True
         \<and> filter isExecFile (snd (checkConnection e s addr (portOf addr))) = []
         \<and> (instance s \<noteq> None \<and> process s \<noteq> None \<longrightarrow>
              filter isPortProbe (snd (checkConnection e s addr (portOf addr))) = [])"
  using assms
  by (auto simp add: checkConnection_def probeSucceeds_def split: option.splits)

section \<open>The claims\<close>

subsection \<open>C1: composite-format documents\<close>

text \<open>
  With only \<open>excalidraw\<close> in the supported set and \<open>md\<close> not in it, a file
  \<open>d.excalidraw.md\<close> passes the filter and is handed to the remote-open invocation: the
  branch for composite documents overwrites \<open>isSupported\<close> and never consults the base
  extension.
\<close>

theorem composite_toggle_only_is_routed:
  "isExcalidrawMd drawing_file
   \<and> \<not> includes_arr (supportedFileTypes (settings toggle_only_state)) (extension drawing_file)
   \<and> includes_arr (supportedFileTypes (settings toggle_only_state)) ''excalidraw''
   \<and> fst (fileTypeFilter (settings toggle_only_state) drawing_file)
   \<and> filter isExecFile (snd (openFile demo_env toggle_only_state (Some drawing_file))) =
       [ExecFile ''/usr/bin/nvim''
          [''--server'', ''127.0.0.1:7777'', ''--remote'', ''/vault/d.excalidraw.md'']]"
  by (simp add: isExcalidrawMd_def endsWith_def includes_arr_def drawing_file_def
      toggle_only_state_simp toggle_only_settings_def demo_settings_def
      fileTypeFilter_def openFile_def checkConnection_def remoteArgs_def demo_adapter_def
      demo_env_def Let_def)

text \<open>
  C1, as amended: for a composite-format document (extension \<open>md\<close>, path ending in
  \<open>.excalidraw.md\<close>) the request passes the filter exactly when \<open>excalidraw\<close> is in the
  supported set, whether or not \<open>md\<close> is; when \<open>excalidraw\<close> is not in the set,
  \<open>openFile\<close> writes one console line and returns, with no notice, no probe, no
  remote-open invocation and the state unchanged.
\<close>

theorem composite_routed_iff_toggle:
  assumes "isExcalidrawMd file"
  shows "fst (fileTypeFilter (settings s) file) =
           includes_arr (supportedFileTypes (settings s)) ''excalidraw''
         \<and> (\<not> includes_arr (supportedFileTypes (settings s)) ''excalidraw'' \<longrightarrow>
              openFile e s (Some file) =
                (s, [Console Log (''Skipping Excalidraw file (type not enabled): '' @
                                  tfile.path file)]))"
  using assms by (simp add: fileTypeFilter_def openFile_def Let_def)

theorem composite_routed_iff_toggle_witness:
  "isExcalidrawMd drawing_file
   \<and> fst (fileTypeFilter (settings toggle_only_state) drawing_file)
   \<and> \<not> fst (fileTypeFilter (settings running_state) drawing_file)
   \<and> openFile demo_env running_state (Some drawing_file) =
       (running_state,
        [Console Log ''Skipping Excalidraw file (type not enabled): d.excalidraw.md''])"
proof -
  have d: "isExcalidrawMd drawing_file"
    by (simp add: isExcalidrawMd_def endsWith_def drawing_file_def)
  have on: "includes_arr (supportedFileTypes (settings toggle_only_state)) ''excalidraw''"
    by (simp add: includes_arr_def toggle_only_state_simp toggle_only_settings_def)
  have off: "\<not> includes_arr (supportedFileTypes (settings running_state)) ''excalidraw''"
    by (simp add: includes_arr_def running_state_simp demo_state_simp demo_settings_def)
  have p: "tfile.path drawing_file = ''d.excalidraw.md''"
    by (simp add: drawing_file_def)
  show ?thesis
    using d on off p
      composite_routed_iff_toggle [OF d, of toggle_only_state demo_env]
      composite_routed_iff_toggle [OF d, of running_state demo_env]
    by simp
qed

subsection \<open>C2: newInstance while a process exists\<close>

text \<open>
  C2: when \<open>this.process\<close> is present, \<open>newInstance\<close> shows the notice "Linked Neovim
  instance already running", writes one console line and returns: no \<open>spawn\<close>, and the
  state (the process reference with its pid, the session reference) is the one it
  was called in.
\<close>

theorem newInstance_already_running:
  assumes "process s \<noteq> None"
  shows "newInstance e ad s =
           (s, [Notice ''Linked Neovim instance already running'' 5000,
                Console Log ''newInstance called, but process already exists.''])"
  using assms by (simp add: newInstance_def)

theorem newInstance_already_running_witness:
  "process running_state \<noteq> None
   \<and> newInstance demo_env demo_adapter running_state =
       (running_state,
        [Notice ''Linked Neovim instance already running'' 5000,
         Console Log ''newInstance called, but process already exists.''])
   \<and> process (fst (newInstance demo_env demo_adapter running_state)) =
       Some (Child 1 (Some 4242))"
proof -
  have a: "process running_state \<noteq> None"
    by (simp add: running_state_simp)
  have b: "process running_state = Some (Child 1 (Some 4242))"
    by (simp add: running_state_simp)
  show ?thesis
    using a b newInstance_already_running [OF a, of demo_env demo_adapter] by simp
qed

subsection \<open>C3: the lifecycle events\<close>

text \<open>
  C3: in every state the class can be in (a session is held only together with a
  process, \<open>reachable_paired\<close>), each of the four handlers clears both references in one
  step if the process reference is present and changes nothing otherwise; after it both
  references are absent, and a second event, whichever it is, leaves the state as the
  first one left it. The handler of \<open>error\<close> assigns without the test; on these states
  that is the same step.
\<close>

theorem lifecycle_event_clears_both:
  assumes "paired s"
  shows "fst (fire termPath ev s) =
           (if process s \<noteq> None then s\<lparr>process := None, instance := None\<rparr> else s)
         \<and> process (fst (fire termPath ev s)) = None
         \<and> instance (fst (fire termPath ev s)) = None
         \<and> fst (fire termPath' ev' (fst (fire termPath ev s))) = fst (fire termPath ev s)"
proof -
  let ?s' = "fst (fire termPath ev s)"
  have step: "?s' = (if process s \<noteq> None then s\<lparr>process := None, instance := None\<rparr> else s)"
    using assms by (rule fire_paired)
  have p: "process ?s' = None"
    by (simp add: step)
  have i: "instance ?s' = None"
    using assms by (auto simp add: step paired_def)
  have again: "fst (fire termPath' ev' ?s') = ?s'"
    using p i by (rule fire_absent)
  show ?thesis using step p i again by blast
qed

theorem lifecycle_event_clears_both_witness:
  "paired running_state
   \<and> process running_state \<noteq> None
   \<and> process (fst (fire ''/usr/bin/alacritty'' ExitEvent running_state)) = None
   \<and> instance (fst (fire ''/usr/bin/alacritty'' ExitEvent running_state)) = None
   \<and> fst (fire ''/usr/bin/alacritty'' CloseEvent
            (fst (fire ''/usr/bin/alacritty'' ExitEvent running_state))) =
       fst (fire ''/usr/bin/alacritty'' ExitEvent running_state)"
proof -
  have a: "paired running_state"
    by (simp add: paired_def running_state_simp)
  have b: "process running_state \<noteq> None"
    by (simp add: running_state_simp)
  show ?thesis
    using a b
      lifecycle_event_clears_both [OF a, of "''/usr/bin/alacritty''" ExitEvent
        "''/usr/bin/alacritty''" CloseEvent]
    by blast
qed

subsection \<open>C4: no instance found\<close>

text \<open>
  With the binary path unresolved, a supported request in a state without an owned pair
  and with the port closed ends with the notice "Neovim path unknown", not with the
  one about no running instance: the path is tested before reachability.
\<close>

theorem no_instance_notice_needs_path:
  "fst (fileTypeFilter (settings not_found_state) note_file)
   \<and> \<not> (instance not_found_state \<noteq> None \<and> process not_found_state \<noteq> None)
   \<and> \<not> probeSucceeds closed_port_env (listenOn (settings not_found_state))
   \<and> filter isNotice (snd (openFile closed_port_env not_found_state (Some note_file))) =
       [Notice ''Neovim path unknown, cannot open file.'' 7000]"
  by (simp add: not_found_state_simp note_supported_unresolved openFile_def
      probeSucceeds_def portOf_demo closed_port_env_def unresolved_listenOn)

text \<open>
  C4, as amended: for a supported request, with the binary path resolved (not empty),
  in a state without an owned process/session pair and with the probe not succeeding
  (no port in the address, the port not in use, or the probe failing), \<open>openFile\<close>
  shows exactly one notice, the one about no running Neovim, invokes no remote-open
  command, spawns nothing and leaves the state unchanged.
\<close>

theorem openFile_no_instance_found:
  assumes "fst (fileTypeFilter (settings s) file)"
    and "nvim_binary.path (nvimBinary s) \<noteq> []"
    and "\<not> (instance s \<noteq> None \<and> process s \<noteq> None)"
    and "\<not> probeSucceeds e (listenOn (settings s))"
  shows "fst (openFile e s (Some file)) = s
         \<and> filter isNotice (snd (openFile e s (Some file))) =
             [Notice ''No running Neovim found. Use 'Open Neovim' or ensure an external instance is listening.'' 5000]
         \<and> filter isExecFile (snd (openFile e s (Some file))) = []
         \<and> filter isSpawn (snd (openFile e s (Some file))) = []"
proof -
  obtain t1 where f: "fileTypeFilter (settings s) file = (True, t1)"
    using assms(1) by (cases "fileTypeFilter (settings s) file") simp
  have t1: "filter isNotice t1 = []" "filter isExecFile t1 = []" "filter isSpawn t1 = []"
    using fileTypeFilter_trace_console [of "settings s" "file"] by (simp_all add: f)
  let ?c = "checkConnection e s (listenOn (settings s)) (portOf (listenOn (settings s)))"
  obtain t2 where c: "?c = (False, t2)"
    using checkConnection_unreachable [OF assms(3) assms(4)] by (cases ?c) simp
  have t2: "filter isNotice t2 = []" "filter isExecFile t2 = []" "filter isSpawn t2 = []"
    using checkConnection_unreachable [OF assms(3) assms(4)] by (simp_all add: c)
  have "openFile e s (Some file) =
          (s, t1 @ t2 @
              [Console Log ''No running Neovim instance (internal or external) found to open file in.'',
               Notice ''No running Neovim found. Use 'Open Neovim' or ensure an external instance is listening.'' 5000])"
    using assms(2) c by (simp add: openFile_def f Let_def)
  then show ?thesis
    by (simp add: t1 t2)
qed

theorem openFile_no_instance_found_witness:
  "fst (fileTypeFilter (settings demo_state) note_file)
   \<and> nvim_binary.path (nvimBinary demo_state) \<noteq> []
   \<and> \<not> (instance demo_state \<noteq> None \<and> process demo_state \<noteq> None)
   \<and> \<not> probeSucceeds closed_port_env (listenOn (settings demo_state))
   \<and> fst (openFile closed_port_env demo_state (Some note_file)) = demo_state
   \<and> filter isNotice (snd (openFile closed_port_env demo_state (Some note_file))) =
       [Notice ''No running Neovim found. Use 'Open Neovim' or ensure an external instance is listening.'' 5000]
   \<and> filter isExecFile (snd (openFile closed_port_env demo_state (Some note_file))) = []
   \<and> filter isSpawn (snd (openFile closed_port_env demo_state (Some note_file))) = []"
proof -
  have a: "fst (fileTypeFilter (settings demo_state) note_file)"
    by (simp add: demo_state_simp note_supported)
  have b: "nvim_binary.path (nvimBinary demo_state) \<noteq> []"
    by (simp add: demo_state_simp)
  have c: "\<not> (instance demo_state \<noteq> None \<and> process demo_state \<noteq> None)"
    by (simp add: demo_state_simp)
  have d: "\<not> probeSucceeds closed_port_env (listenOn (settings demo_state))"
    by (simp add: probeSucceeds_def demo_state_simp demo_listenOn portOf_demo
        closed_port_env_def)
  show ?thesis
    using a b c d openFile_no_instance_found [OF a b c d] by simp
qed

subsection \<open>C5: the remote-open invocation\<close>

text \<open>
  With the binary path unresolved and port 7777 in use, a supported request invokes
  nothing: \<open>openFile\<close> returns at the test of the path.
\<close>

theorem remote_open_needs_path:
  "fst (fileTypeFilter (settings not_found_state) note_file)
   \<and> probeSucceeds demo_env (listenOn (settings not_found_state))
   \<and> filter isExecFile (snd (openFile demo_env not_found_state (Some note_file))) = []"
  by (simp add: not_found_state_simp note_supported_unresolved openFile_def
      probeSucceeds_def portOf_demo unresolved_listenOn demo_env_def)

text \<open>
  C5, as amended: for a supported request, with the binary path resolved (not empty),
  when the owned process and session both exist or the port probe succeeds,
  \<open>openFile\<close> calls \<open>execFile\<close> exactly once, on the binary path, with the arguments
  \<open>--server\<close>, the configured listen address, \<open>--remote\<close>, the full path of the file,
  in that order; with the owned pair present no port is probed; the state is unchanged.
\<close>

theorem openFile_remote_open:
  assumes "fst (fileTypeFilter (settings s) file)"
    and "nvim_binary.path (nvimBinary s) \<noteq> []"
    and "(instance s \<noteq> None \<and> process s \<noteq> None) \<or> probeSucceeds e (listenOn (settings s))"
  shows "filter isExecFile (snd (openFile e s (Some file))) =
           [ExecFile (nvim_binary.path (nvimBinary s))
              [''--server'', listenOn (settings s), ''--remote'',
               getFullPath (adapter s) (tfile.path file)]]
         \<and> (instance s \<noteq> None \<and> process s \<noteq> None \<longrightarrow>
              filter isPortProbe (snd (openFile e s (Some file))) = [])
         \<and> fst (openFile e s (Some file)) = s"
proof -
  obtain t1 where f: "fileTypeFilter (settings s) file = (True, t1)"
    using assms(1) by (cases "fileTypeFilter (settings s) file") simp
  have t1: "filter isExecFile t1 = []" "filter isPortProbe t1 = []"
    using fileTypeFilter_trace_console [of "settings s" "file"] by (simp_all add: f)
  let ?c = "checkConnection e s (listenOn (settings s)) (portOf (listenOn (settings s)))"
  obtain t2 where c: "?c = (True, t2)"
    using checkConnection_reachable [OF assms(3)] by (cases ?c) simp
  have t2: "filter isExecFile t2 = []"
    "instance s \<noteq> None \<and> process s \<noteq> None \<longrightarrow> filter isPortProbe t2 = []"
    using checkConnection_reachable [OF assms(3)] by (simp_all add: c)
  let ?args = "remoteArgs (listenOn (settings s)) (getFullPath (adapter s) (tfile.path file))"
  let ?t3 = "(case execFile e (nvim_binary.path (nvimBinary s)) ?args of
               None \<Rightarrow> []
             | Some msg \<Rightarrow>
                 [Console Err ''Error caught during child_process.execFile call:'',
                  Notice (''Failed to run Neovim command: '' @ msg) 10000])"
  have t3: "filter isExecFile ?t3 = []" "filter isPortProbe ?t3 = []"
    by (simp_all split: option.splits)
  have "openFile e s (Some file) =
          (s, t1 @ t2 @
              [Console Log (''Requesting Neovim on '' @ listenOn (settings s) @ '' to open: '' @
                            getFullPath (adapter s) (tfile.path file)),
               ExecFile (nvim_binary.path (nvimBinary s)) ?args] @ ?t3)"
    using assms(2) c by (simp add: openFile_def f Let_def)
  then show ?thesis
    using t1 t2 t3 by (simp add: remoteArgs_def)
qed

theorem openFile_remote_open_witness:
  "fst (fileTypeFilter (settings running_state) note_file)
   \<and> nvim_binary.path (nvimBinary running_state) \<noteq> []
   \<and> instance running_state \<noteq> None \<and> process running_state \<noteq> None
   \<and> filter isExecFile (snd (openFile closed_port_env running_state (Some note_file))) =
       [ExecFile ''/usr/bin/nvim''
          [''--server'', ''127.0.0.1:7777'', ''--remote'', ''/vault/notes/today.md'']]
   \<and> filter isPortProbe (snd (openFile closed_port_env running_state (Some note_file))) = []
   \<and> probeSucceeds demo_env (listenOn (settings demo_state))
   \<and> filter isExecFile (snd (openFile demo_env demo_state (Some note_file))) =
       [ExecFile ''/usr/bin/nvim''
          [''--server'', ''127.0.0.1:7777'', ''--remote'', ''/vault/notes/today.md'']]"
proof -
  have a: "fst (fileTypeFilter (settings running_state) note_file)"
    by (simp add: running_state_simp demo_state_simp note_supported)
  have b: "nvim_binary.path (nvimBinary running_state) \<noteq> []"
    by (simp add: running_state_simp demo_state_simp)
  have c: "instance running_state \<noteq> None \<and> process running_state \<noteq> None"
    by (simp add: running_state_simp)
  have c': "(instance running_state \<noteq> None \<and> process running_state \<noteq> None)
            \<or> probeSucceeds closed_port_env (listenOn (settings running_state))"
    using c by simp
  have a2: "fst (fileTypeFilter (settings demo_state) note_file)"
    by (simp add: demo_state_simp note_supported)
  have b2: "nvim_binary.path (nvimBinary demo_state) \<noteq> []"
    by (simp add: demo_state_simp)
  have d: "probeSucceeds demo_env (listenOn (settings demo_state))"
    by (simp add: probeSucceeds_def demo_state_simp demo_listenOn portOf_demo demo_env_def)
  have d': "(instance demo_state \<noteq> None \<and> process demo_state \<noteq> None)
            \<or> probeSucceeds demo_env (listenOn (settings demo_state))"
    using d by simp
  have v: "nvim_binary.path (nvimBinary running_state) = ''/usr/bin/nvim''"
    "listenOn (settings running_state) = ''127.0.0.1:7777''"
    "getFullPath (adapter running_state) (tfile.path note_file) = ''/vault/notes/today.md''"
    "nvim_binary.path (nvimBinary demo_state) = ''/usr/bin/nvim''"
    "listenOn (settings demo_state) = ''127.0.0.1:7777''"
    "getFullPath (adapter demo_state) (tfile.path note_file) = ''/vault/notes/today.md''"
    by (simp_all add: running_state_simp demo_state_simp demo_listenOn demo_adapter_def
        note_file_def)
  show ?thesis
    using a b c d v
      openFile_remote_open [OF a b c']
      openFile_remote_open [OF a2 b2 d']
    by simp
qed

subsection \<open>C6: getBuffers\<close>

text \<open>
  C6: without a session \<open>getBuffers\<close> returns the empty list and does nothing else;
  with a session whose \<open>buffers\<close> request fails it writes the failure to the console,
  shows a notice and returns the empty list; in every case the state is the one it was
  called in. (A failure is an \<open>Error\<close> with a message, as the transport raises them.)
\<close>

theorem getBuffers_empty_on_failure:
  "(instance s = None \<longrightarrow> getBuffers e s = (s, [], []))
   \<and> (\<forall>i msg. instance s = Some i \<and> buffers e i = Inl msg \<longrightarrow>
         getBuffers e s =
           (s, [], [ReadBuffers i, Console Err ''Failed to get Neovim buffers:'',
                    Notice (''Error communicating with Neovim: '' @ msg) 5000]))
   \<and> fst (getBuffers e s) = s"
  by (auto simp add: getBuffers_def split: option.splits sum.splits)

theorem getBuffers_empty_on_failure_witness:
  "instance demo_state = None
   \<and> getBuffers demo_env demo_state = (demo_state, [], [])
   \<and> instance running_state = Some (Session (Child 1 (Some 4242)))
   \<and> buffers demo_env (Session (Child 1 (Some 4242))) = Inl ''transport closed''
   \<and> getBuffers demo_env running_state =
       (running_state, [],
        [ReadBuffers (Session (Child 1 (Some 4242))),
         Console Err ''Failed to get Neovim buffers:'',
         Notice ''Error communicating with Neovim: transport closed'' 5000])"
proof -
  have a: "instance demo_state = None"
    by (simp add: demo_state_simp)
  have b: "instance running_state = Some (Session (Child 1 (Some 4242)))"
    by (simp add: running_state_simp)
  have c: "buffers demo_env (Session (Child 1 (Some 4242))) = Inl ''transport closed''"
    by (simp add: demo_env_def)
  show ?thesis
    using a b c
      getBuffers_empty_on_failure [of demo_state demo_env]
      getBuffers_empty_on_failure [of running_state demo_env]
    by simp
qed

subsection \<open>C7: close\<close>

text \<open>
  C7: whatever \<open>quit\<close> and \<open>kill\<close> answer, \<open>close\<close> leaves both references absent;
  it calls \<open>quit\<close> on the session when there is one and then \<open>kill\<close> with
  \<open>SIGTERM\<close> on the process when there is one, in that order; and a second \<open>close\<close>
  right after the first calls neither, writes its console lines and its notice, and
  leaves the state as the first one left it.
\<close>

theorem close_idempotent:
  "instance (fst (close e s)) = None
   \<and> process (fst (close e s)) = None
   \<and> filter isQuitOrKill (snd (close e s)) =
       (case instance s of None \<Rightarrow> [] | Some i \<Rightarrow> [Quit i]) @
       (case process s of None \<Rightarrow> [] | Some p \<Rightarrow> [Kill p ''SIGTERM''])
   \<and> close e' (fst (close e s)) =
       (fst (close e s),
        [Console Log ''Close method called.'',
         Console Log ''No active Neovim instance object to quit via RPC.'',
         Console Log ''No active Neovim process object to kill.'',
         Console Log ''Neovim instance and process references cleared.'',
         Notice ''Neovim instance closed.'' 3000])"
proof -
  have a: "fst (close e s) = s\<lparr>instance := None, process := None\<rparr>"
    by (rule close_state)
  have b: "filter isQuitOrKill (snd (close e s)) =
       (case instance s of None \<Rightarrow> [] | Some i \<Rightarrow> [Quit i]) @
       (case process s of None \<Rightarrow> [] | Some p \<Rightarrow> [Kill p ''SIGTERM''])"
    by (simp add: close_def split: option.splits)
  have c: "close e' (s\<lparr>instance := None, process := None\<rparr>) =
       (s\<lparr>instance := None, process := None\<rparr>,
        [Console Log ''Close method called.'',
         Console Log ''No active Neovim instance object to quit via RPC.'',
         Console Log ''No active Neovim process object to kill.'',
         Console Log ''Neovim instance and process references cleared.'',
         Notice ''Neovim instance closed.'' 3000])"
    by (simp add: close_def)
  show ?thesis using b c by (simp add: a)
qed

theorem close_idempotent_witness:
  "instance running_state = Some (Session (Child 1 (Some 4242)))
   \<and> process running_state = Some (Child 1 (Some 4242))
   \<and> quit demo_env (Session (Child 1 (Some 4242))) \<noteq> None
   \<and> \<not> kill demo_env (Child 1 (Some 4242)) ''SIGTERM''
   \<and> instance (fst (close demo_env running_state)) = None
   \<and> process (fst (close demo_env running_state)) = None
   \<and> filter isQuitOrKill (snd (close demo_env running_state)) =
       [Quit (Session (Child 1 (Some 4242))), Kill (Child 1 (Some 4242)) ''SIGTERM'']
   \<and> fst (close demo_env (fst (close demo_env running_state))) =
       fst (close demo_env running_state)"
proof -
  have a: "instance running_state = Some (Session (Child 1 (Some 4242)))"
    by (simp add: running_state_simp)
  have b: "process running_state = Some (Child 1 (Some 4242))"
    by (simp add: running_state_simp)
  have c: "quit demo_env (Session (Child 1 (Some 4242))) \<noteq> None"
    "\<not> kill demo_env (Child 1 (Some 4242)) ''SIGTERM''"
    by (simp_all add: demo_env_def)
  show ?thesis
    using a b c close_idempotent [of demo_env running_state demo_env] by simp
qed

subsection \<open>C8: the configured binary path\<close>

text \<open>
  The version recorded for a configured path is the string \<open>manual_path\<close>, not
  \<open>manual\<close>.
\<close>

theorem override_version_marker:
  "pathToBinary demo_settings \<noteq> []
   \<and> nvimVersion (nvimBinary (fst (constructor demo_env demo_settings demo_adapter None)))
       = Some ''manual_path''
   \<and> nvimVersion (nvimBinary (fst (constructor demo_env demo_settings demo_adapter None)))
       \<noteq> Some ''manual''"
  by (simp add: constructor_def resolveNvim_def demo_settings_def Let_def)

text \<open>
  C8, as amended: for every configured binary path that is not empty, the constructor
  takes that path as the resolved location, with the version \<open>manual_path\<close> and no
  error, whatever a search would have found: \<open>findNvim\<close> is not called, and no notice
  is shown.
\<close>

theorem override_path_trusted:
  assumes "pathToBinary st \<noteq> []"
  shows "nvimBinary (fst (constructor e st ad key)) =
           \<lparr>nvim_binary.path = pathToBinary st, nvimVersion = Some ''manual_path'', error = None\<rparr>
         \<and> resolveNvim e st =
             (\<lparr>nvim_binary.path = pathToBinary st, nvimVersion = Some ''manual_path'',
               error = None\<rparr>,
              [Console Log (''Using manual Neovim path: '' @ pathToBinary st)])
         \<and> FindNvim \<notin> set (snd (constructor e st ad key))
         \<and> filter isNotice (snd (constructor e st ad key)) = []"
  using assms
  by (simp add: constructor_def resolveNvim_def reportNvim_def truthy_def Let_def)

theorem override_path_trusted_witness:
  "pathToBinary demo_settings \<noteq> []
   \<and> nvimBinary (fst (constructor demo_env demo_settings demo_adapter None)) =
       \<lparr>nvim_binary.path = ''/usr/bin/nvim'', nvimVersion = Some ''manual_path'', error = None\<rparr>
   \<and> FindNvim \<notin> set (snd (constructor demo_env demo_settings demo_adapter None))
   \<and> filter isNotice (snd (constructor demo_env demo_settings demo_adapter None)) = []"
proof -
  have a: "pathToBinary demo_settings \<noteq> []"
    by (simp add: demo_settings_def)
  have b: "pathToBinary demo_settings = ''/usr/bin/nvim''"
    by (simp add: demo_settings_def)
  show ?thesis
    using a override_path_trusted [OF a, of demo_env demo_adapter None] by (simp add: b)
qed

subsection \<open>C9: openFile without a file\<close>

text \<open>
  C9: called with \<open>null\<close>, \<open>openFile\<close> writes one console line and returns: no
  notice, no probe, no remote-open invocation, and the state unchanged.
\<close>

theorem openFile_null:
  "openFile e s None = (s, [Console Log ''openFile called with null file.''])"
  by (simp add: openFile_def)

theorem openFile_null_witness:
  "openFile demo_env running_state None =
     (running_state, [Console Log ''openFile called with null file.''])"
  using openFile_null [of demo_env running_state] by simp

subsection \<open>C10: openFile with the binary path unresolved\<close>

text \<open>
  C10: for a supported request with the binary path empty, whatever the environment
  answers (so also with the port in use), \<open>openFile\<close> writes the console lines of the
  filter, one error line and the notice "Neovim path unknown, cannot open file.", and
  returns: no port is probed, nothing is invoked, the state is unchanged.
\<close>

theorem openFile_path_unknown:
  assumes "fst (fileTypeFilter (settings s) file)"
    and "nvim_binary.path (nvimBinary s) = []"
  shows "openFile e s (Some file) =
           (s, snd (fileTypeFilter (settings s) file) @
               [Console Err ''Cannot open file: Neovim binary path is not configured.'',
                Notice ''Neovim path unknown, cannot open file.'' 7000])
         \<and> filter isPortProbe (snd (openFile e s (Some file))) = []
         \<and> filter isExecFile (snd (openFile e s (Some file))) = []"
proof -
  have "openFile e s (Some file) =
           (s, snd (fileTypeFilter (settings s) file) @
               [Console Err ''Cannot open file: Neovim binary path is not configured.'',
                Notice ''Neovim path unknown, cannot open file.'' 7000])"
    using assms by (cases "fileTypeFilter (settings s) file") (simp add: openFile_def)
  then show ?thesis
    by (simp add: fileTypeFilter_trace_console)
qed

theorem openFile_path_unknown_witness:
  "fst (fileTypeFilter (settings not_found_state) note_file)
   \<and> nvim_binary.path (nvimBinary not_found_state) = []
   \<and> probeSucceeds demo_env (listenOn (settings not_found_state))
   \<and> openFile demo_env not_found_state (Some note_file) =
       (not_found_state,
        [Console Err ''Cannot open file: Neovim binary path is not configured.'',
         Notice ''Neovim path unknown, cannot open file.'' 7000])"
proof -
  have a: "fst (fileTypeFilter (settings not_found_state) note_file)"
    by (simp add: not_found_state_simp note_supported_unresolved)
  have b: "nvim_binary.path (nvimBinary not_found_state) = []"
    by (simp add: not_found_state_simp)
  have c: "probeSucceeds demo_env (listenOn (settings not_found_state))"
    by (simp add: probeSucceeds_def not_found_state_simp unresolved_listenOn portOf_demo
        demo_env_def)
  have d: "snd (fileTypeFilter (settings not_found_state) note_file) = []"
    by (simp add: not_found_state_simp note_supported_unresolved)
  show ?thesis
    using a b c d openFile_path_unknown [OF a b, of demo_env] by simp
qed

end
